theory Spec2Isabelle
  imports Complex_Main "HOL-Library.AList" "HOL-Library.Sublist"
begin

section \<open>Python values, dictionaries and exceptions\<close>

text \<open>
  The workflow state and every handler result of the repository are plain Python
  dictionaries with string keys. Their values are modelled by \<open>pyval\<close>: a \<open>str\<close> is a
  \<open>string\<close> (one \<open>char\<close> per Python character), a \<open>float\<close> is the real number it denotes
  (the code only compares floats and stores them, it never computes with them, so the
  order of the reals is all that is used; \<open>nan\<close> and the infinities are not represented).
  A dictionary is an association list: \<open>map_of\<close> is the lookup, and
  \<open>AList.update k v d\<close> is what \<^verbatim>\<open>{**d, k: v}\<close> builds (the entry is replaced in
  place when the key exists and appended otherwise). The few symbols outside ASCII in
  the fixed message texts are written as the bytes of their UTF-8 encoding.
\<close>

datatype pyval =
    VNone
  | VBool bool
  | VInt int
  | VFloat real
  | VStr string
  | VList "pyval list"
  | VDict "(string \<times> pyval) list"

type_synonym dict = "(string \<times> pyval) list"

text \<open>
  Exceptions are values. \<open>KeyError\<close> is raised by a subscript \<^verbatim>\<open>d[k]\<close> on a missing
  key, \<open>TypeError\<close> by an operation on a value of the wrong type, and \<open>Raised msg\<close> is
  any exception (a subclass of \<^verbatim>\<open>Exception\<close>) raised inside an external capability,
  with \<^verbatim>\<open>str(e) = msg\<close>.
\<close>

datatype exn = KeyError string | TypeError string | Raised string

fun str_exn :: "exn \<Rightarrow> string" where
  "str_exn (KeyError k) = [CHR 0x27] @ k @ [CHR 0x27]"
| "str_exn (TypeError m) = m"
| "str_exn (Raised m) = m"

definition getitem :: "dict \<Rightarrow> string \<Rightarrow> exn + pyval" where
  "getitem d k = (case map_of d k of None \<Rightarrow> Inl (KeyError k) | Some v \<Rightarrow> Inr v)"

definition get :: "dict \<Rightarrow> string \<Rightarrow> pyval \<Rightarrow> pyval" where
  "get d k dflt = (case map_of d k of None \<Rightarrow> dflt | Some v \<Rightarrow> v)"

definition keys :: "dict \<Rightarrow> string list" where
  "keys d = map fst d"

text \<open>\<^verbatim>\<open>{**d, k1: v1, ..., kn: vn}\<close>: the entries are applied from left to right.\<close>

definition override :: "dict \<Rightarrow> dict \<Rightarrow> dict" where
  "override d entries = foldl (\<lambda>acc (k, v). AList.update k v acc) d entries"

definition nl :: string where
  "nl = [CHR 0x0A]"

text \<open>\<^verbatim>\<open>sep.join(xs)\<close>\<close>

fun join :: "string \<Rightarrow> string list \<Rightarrow> string" where
  "join sep [] = []"
| "join sep [x] = x"
| "join sep (x # y # ys) = x @ sep @ join sep (y # ys)"

text \<open>
  \<^verbatim>\<open>x < c\<close> for a float literal \<open>c\<close>: a comparison of numbers (a \<open>bool\<close> counts
  as 0 or 1), and a \<open>TypeError\<close> on \<open>None\<close>, strings, lists and dictionaries.
\<close>

fun lt_float :: "pyval \<Rightarrow> real \<Rightarrow> exn + bool" where
  "lt_float (VFloat x) c = Inr (x < c)"
| "lt_float (VInt i) c = Inr (real_of_int i < c)"
| "lt_float (VBool b) c = Inr ((if b then 1 else 0) < c)"
| "lt_float _ c = Inl (TypeError ''< not supported'')"

text \<open>
  A handler of the repository declares the types of its parameters
  (\<^verbatim>\<open>query: str\<close>, \<^verbatim>\<open>confidence: float\<close>). Where a node passes a value of the
  state to a handler, the model reads it at the declared type; a state whose value has
  another type is outside the \<^verbatim>\<open>TypedDict\<close> declaration of \<^verbatim>\<open>WorkflowState\<close>
  and the read is reported as a \<open>TypeError\<close>. Every state that \<open>process_query\<close>
  builds has the declared types (lemmas \<open>classifier_node_initial\<close> and
  \<open>process_query_typed\<close> below).
\<close>

definition get_str :: "dict \<Rightarrow> string \<Rightarrow> exn + string" where
  "get_str d k =
     (case map_of d k of
        None \<Rightarrow> Inl (KeyError k)
      | Some (VStr s) \<Rightarrow> Inr s
      | Some _ \<Rightarrow> Inl (TypeError k))"

definition get_float :: "dict \<Rightarrow> string \<Rightarrow> exn + real" where
  "get_float d k =
     (case map_of d k of
        None \<Rightarrow> Inl (KeyError k)
      | Some (VFloat x) \<Rightarrow> Inr x
      | Some _ \<Rightarrow> Inl (TypeError k))"

section \<open>External capabilities\<close>

text \<open>
  Classification, semantic search, text generation and the clock are outside the
  repository. Each is an oracle that sees the calls made so far (the \<open>history\<close>), so
  that a second attempt may answer differently from the first; every function that
  calls a capability returns the history extended by the calls it made. An oracle
  answers \<open>Inl e\<close> when the call raises \<open>e\<close>.

  \<open>QueryClassification\<close> is the structured output of the classification chain
  (classifier_agent.py, lines 16-28). Its fields are prefixed with \<open>qc_\<close> here; the
  declaration restricts the category to the four literals and the confidence to
  \<open>[0, 1]\<close>, which the parsing library enforces before the object is returned.
\<close>

record QueryClassification =
  qc_category :: string
  qc_confidence :: real
  qc_reasoning :: string

record Document =
  page_content :: string

datatype prompt = products_prompt | returns_prompt | general_prompt

datatype call =
    ChainInvoke string
  | SimilaritySearch string nat
  | LlmInvoke prompt string string
  | DatetimeNow

type_synonym history = "call list"

record services =
  chain_invoke :: "history \<Rightarrow> string \<Rightarrow> exn + QueryClassification"
  similarity_search :: "history \<Rightarrow> string \<Rightarrow> nat \<Rightarrow> exn + Document list"
  llm_invoke :: "history \<Rightarrow> prompt \<Rightarrow> string \<Rightarrow> string \<Rightarrow> exn + string"
  datetime_now :: "history \<Rightarrow> string"

section \<open>Classifier (classifier_agent.py)\<close>

text \<open>
  \<^verbatim>\<open>ClassifierAgent.classify\<close>: one call of the chain inside \<^verbatim>\<open>try\<close>; the
  \<^verbatim>\<open>except Exception\<close> branch builds the fallback dictionary. The reads of the
  three attributes of the result are inside the same \<^verbatim>\<open>try\<close>, so an answer on
  which they would fail counts as a raising call.
\<close>

definition classify :: "services \<Rightarrow> history \<Rightarrow> string \<Rightarrow> dict \<times> history" where
  "classify sv h query =
     (case chain_invoke sv h query of
        Inr result \<Rightarrow>
          [(''category'', VStr (qc_category result)),
           (''confidence'', VFloat (qc_confidence result)),
           (''reasoning'', VStr (qc_reasoning result))]
      | Inl e \<Rightarrow>
          [(''category'', VStr ''unhandled''),
           (''confidence'', VFloat 0.0),
           (''reasoning'', VStr (''Classification error: '' @ str_exn e))],
      h @ [ChainInvoke query])"

section \<open>Router (langgraph_workflow.py)\<close>

text \<open>
  \<^verbatim>\<open>CustomerSupportWorkflow._route_query\<close> (the leading underscore of the source's
  private names is dropped). The trace output of \<^verbatim>\<open>print\<close> is not modelled.
\<close>

definition route_query :: "dict \<Rightarrow> exn + string" where
  "route_query state =
     (case getitem state ''category'' of
        Inl e \<Rightarrow> Inl e
      | Inr category \<Rightarrow>
     (case getitem state ''confidence'' of
        Inl e \<Rightarrow> Inl e
      | Inr confidence \<Rightarrow>
          if category = VStr ''unhandled'' then Inr ''escalate''
          else (case lt_float confidence 0.7 of
                  Inl e \<Rightarrow> Inl e
                | Inr low \<Rightarrow> if low then Inr ''escalate'' else Inr ''rag'')))"

section \<open>Retrieval-augmented responder (rag_responder.py)\<close>

text \<open>
  The retriever is built once with \<^verbatim>\<open>search_kwargs={"k": 4}\<close>; invoking it is one
  call of the semantic search for four fragments.
\<close>

definition retriever :: "services \<Rightarrow> history \<Rightarrow> string \<Rightarrow> (exn + Document list) \<times> history" where
  "retriever sv h query = (similarity_search sv h query 4, h @ [SimilaritySearch query 4])"

text \<open>
  The three prompt templates are keyed by category. A template is represented by its
  name: the text sent to the generation capability is a function of the template, the
  context and the query, which are the arguments of \<open>llm_invoke\<close>.
\<close>

definition prompts :: "(string \<times> prompt) list" where
  "prompts =
     [(''products'', products_prompt),
      (''returns'', returns_prompt),
      (''general'', general_prompt)]"

definition format_docs :: "Document list \<Rightarrow> string" where
  "format_docs docs = join (nl @ nl) (map page_content docs)"

text \<open>
  \<^verbatim>\<open>rag_chain.invoke(query)\<close>: the chain runs the retriever itself to build the
  context, fills the prompt and calls the model.
\<close>

definition rag_chain_invoke ::
  "services \<Rightarrow> history \<Rightarrow> prompt \<Rightarrow> string \<Rightarrow> (exn + string) \<times> history" where
  "rag_chain_invoke sv h prompt query =
     (case retriever sv h query of
        (Inl e, h') \<Rightarrow> (Inl e, h')
      | (Inr docs, h') \<Rightarrow>
          (let context = format_docs docs
           in (llm_invoke sv h' prompt context query,
               h' @ [LlmInvoke prompt context query])))"

definition apology :: string where
  "apology = ''I apologize, but I encountered an error processing your request. Please contact support@techgear.com''"

text \<open>
  \<^verbatim>\<open>RAGResponder.respond\<close>. The whole body is inside \<^verbatim>\<open>try\<close>; the dictionary
  of the \<^verbatim>\<open>except Exception\<close> branch is \<open>respond_failure\<close>.
\<close>

definition respond_failure :: "exn \<Rightarrow> dict" where
  "respond_failure e =
     [(''response'', VStr apology),
      (''retrieved_docs'', VList []),
      (''num_docs'', VInt 0),
      (''success'', VBool False),
      (''error'', VStr (str_exn e))]"

text \<open>\<^verbatim>\<open>self.prompts.get(category, self.prompts["general"])\<close>\<close>

definition select_prompt :: "string \<Rightarrow> prompt" where
  "select_prompt category =
     (case map_of prompts category of Some p \<Rightarrow> p | None \<Rightarrow> general_prompt)"

definition respond :: "services \<Rightarrow> history \<Rightarrow> string \<Rightarrow> string \<Rightarrow> dict \<times> history" where
  "respond sv h query category =
     (let prompt = select_prompt category
      in case retriever sv h query of
           (Inl e, h1) \<Rightarrow> (respond_failure e, h1)
         | (Inr docs, h1) \<Rightarrow>
             (case rag_chain_invoke sv h1 prompt query of
                (Inl e, h2) \<Rightarrow> (respond_failure e, h2)
              | (Inr response, h2) \<Rightarrow>
                  ([(''response'', VStr response),
                    (''retrieved_docs'',
                       VList (map (\<lambda>doc. VStr (take 200 (page_content doc) @ ''...'')) docs)),
                    (''num_docs'', VInt (int (length docs))),
                    (''success'', VBool True)],
                   h2)))"

section \<open>Escalation handler (escalation_agent.py)\<close>

definition support_email :: string where
  "support_email = ''support@techgear.com''"

definition support_hours :: string where
  "support_hours = ''Mon-Sat, 9AM-6PM IST''"

definition response_time :: string where
  "response_time = ''24 hours''"

text \<open>The reason selected at the start of \<^verbatim>\<open>EscalationAgent.escalate\<close>.\<close>

definition escalation_reason :: "string \<Rightarrow> real \<Rightarrow> string" where
  "escalation_reason category confidence =
     (if category = ''unhandled'' then ''This query requires human assistance''
      else if confidence < 0.7 then ''The query needs clarification''
      else ''This request needs specialized support'')"

definition escalation_message :: "string \<Rightarrow> string \<Rightarrow> string" where
  \<open>escalation_message query reason =
     ''I apologize, but I need to connect you with a human support agent for this request.'' @ nl @
     nl @
     ''**Your Query:** "'' @ query @ ''"'' @ nl @
     nl @
     ''**Reason:** '' @ reason @ nl @
     nl @
     ''Our support team is here to help you with:'' @ nl @
     [CHR 0xE2, CHR 0x80, CHR 0xA2] @ '' Complex technical issues'' @ nl @
     [CHR 0xE2, CHR 0x80, CHR 0xA2] @ '' Account-specific inquiries  '' @ nl @
     [CHR 0xE2, CHR 0x80, CHR 0xA2] @ '' Special requests and customizations'' @ nl @
     [CHR 0xE2, CHR 0x80, CHR 0xA2] @ '' Detailed product consultations'' @ nl @
     nl @
     ''**Contact Information:**'' @ nl @
     [CHR 0xF0, CHR 0x9F, CHR 0x93, CHR 0xA7] @ '' **Email:** '' @ support_email @ nl @
     [CHR 0xE2, CHR 0x8F, CHR 0xB0] @ '' **Hours:** '' @ support_hours @ nl @
     [CHR 0xE2, CHR 0x8F, CHR 0xB1] @ [CHR 0xEF, CHR 0xB8, CHR 0x8F] @
       '' **Response Time:** Within '' @ response_time @ nl @
     nl @
     ''A support agent will review your request and respond as soon as possible.'' @ nl @
     nl @
     ''Thank you for your patience!''\<close>

text \<open>
  \<^verbatim>\<open>EscalationAgent.escalate\<close>: the timestamp of the log is read from the clock
  (\<^verbatim>\<open>datetime.now().isoformat()\<close>).
\<close>

definition escalate ::
  "services \<Rightarrow> history \<Rightarrow> string \<Rightarrow> string \<Rightarrow> real \<Rightarrow> string \<Rightarrow> dict \<times> history" where
  "escalate sv h query category confidence reasoning =
     (let response = escalation_message query (escalation_reason category confidence);
          escalation_log =
            [(''timestamp'', VStr (datetime_now sv h)),
             (''query'', VStr query),
             (''category'', VStr category),
             (''confidence'', VFloat confidence),
             (''reasoning'', VStr reasoning),
             (''status'', VStr ''escalated'')]
      in ([(''response'', VStr response),
           (''requires_escalation'', VBool True),
           (''escalation_log'', VDict escalation_log),
           (''contact_info'',
              VDict [(''email'', VStr support_email),
                     (''hours'', VStr support_hours),
                     (''response_time'', VStr response_time)])],
          h @ [DatetimeNow]))"

definition clarification_message :: "string \<Rightarrow> string" where
  \<open>clarification_message query =
     ''Thank you for contacting TechGear Electronics!'' @ nl @
     nl @
     ''I'd be happy to help, but I need a bit more information to provide you with the best answer.'' @ nl @
     nl @
     ''**Your Query:** "'' @ query @ ''"'' @ nl @
     nl @
     ''Could you please provide more details about:'' @ nl @
     [CHR 0xE2, CHR 0x80, CHR 0xA2] @ '' What product or service you're asking about?'' @ nl @
     [CHR 0xE2, CHR 0x80, CHR 0xA2] @ '' What specific information do you need?'' @ nl @
     [CHR 0xE2, CHR 0x80, CHR 0xA2] @ '' Is this related to a purchase, return, or general inquiry?'' @ nl @
     nl @
     ''Alternatively, you can:'' @ nl @
     [CHR 0xF0, CHR 0x9F, CHR 0x93, CHR 0xA7] @ '' **Email us:** '' @ support_email @
       '' with detailed information'' @ nl @
     [CHR 0xE2, CHR 0x8F, CHR 0xB0] @ '' **Available:** '' @ support_hours @ nl @
     nl @
     ''Thank you for your understanding!''\<close>

definition generate_clarification_request :: "string \<Rightarrow> dict" where
  "generate_clarification_request query =
     [(''response'', VStr (clarification_message query)),
      (''requires_escalation'', VBool False),
      (''needs_clarification'', VBool True)]"

section \<open>Orchestrator (langgraph_workflow.py)\<close>

text \<open>
  A step either raises or returns a value, and in both cases leaves a history.
  \<open>io_bind\<close> sequences two steps: an exception of the first one ends the run.
\<close>

definition io_bind ::
  "(exn + 'a) \<times> history \<Rightarrow> ('a \<Rightarrow> history \<Rightarrow> (exn + 'b) \<times> history) \<Rightarrow> (exn + 'b) \<times> history" where
  "io_bind m f = (case m of (Inl e, h) \<Rightarrow> (Inl e, h) | (Inr x, h) \<Rightarrow> f x h)"

text \<open>\<^verbatim>\<open>_classifier_node\<close>\<close>

definition classifier_node :: "services \<Rightarrow> history \<Rightarrow> dict \<Rightarrow> (exn + dict) \<times> history" where
  "classifier_node sv h state =
     io_bind (get_str state ''query'', h) (\<lambda>query h.
     (case classify sv h query of (result, h) \<Rightarrow>
     io_bind (getitem result ''category'', h) (\<lambda>category h.
     io_bind (getitem result ''confidence'', h) (\<lambda>confidence h.
     io_bind (getitem result ''reasoning'', h) (\<lambda>reasoning h.
       (Inr (override state
               [(''category'', category),
                (''confidence'', confidence),
                (''reasoning'', reasoning),
                (''node_executed'', VStr ''classifier'')]),
        h))))))"

text \<open>\<^verbatim>\<open>_rag_responder_node\<close>\<close>

definition rag_responder_node :: "services \<Rightarrow> history \<Rightarrow> dict \<Rightarrow> (exn + dict) \<times> history" where
  "rag_responder_node sv h state =
     io_bind (get_str state ''query'', h) (\<lambda>query h.
     io_bind (get_str state ''category'', h) (\<lambda>category h.
     (case respond sv h query category of (result, h) \<Rightarrow>
     io_bind (getitem result ''response'', h) (\<lambda>response h.
       (Inr (override state
               [(''response'', response),
                (''retrieved_docs'', get result ''retrieved_docs'' (VList [])),
                (''node_executed'', VStr ''rag_responder''),
                (''requires_escalation'', VBool False)]),
        h)))))"

text \<open>
  \<^verbatim>\<open>_escalation_node\<close>. The condition
  \<^verbatim>\<open>state["confidence"] < 0.5 and state["category"] != "unhandled"\<close> reads the
  category only when the comparison holds.
\<close>

definition escalation_node :: "services \<Rightarrow> history \<Rightarrow> dict \<Rightarrow> (exn + dict) \<times> history" where
  "escalation_node sv h state =
     io_bind (getitem state ''confidence'', h) (\<lambda>confidence h.
     io_bind (lt_float confidence 0.5, h) (\<lambda>low h.
     io_bind (if low
              then (case getitem state ''category'' of
                      Inl e \<Rightarrow> Inl e
                    | Inr category \<Rightarrow> Inr (category \<noteq> VStr ''unhandled''))
              else Inr False, h) (\<lambda>clarify h.
     io_bind (if clarify
              then io_bind (get_str state ''query'', h) (\<lambda>query h.
                     (Inr (generate_clarification_request query), h))
              else io_bind (get_str state ''query'', h) (\<lambda>query h.
                   io_bind (get_str state ''category'', h) (\<lambda>category h.
                   io_bind (get_float state ''confidence'', h) (\<lambda>confidence h.
                   io_bind (get_str state ''reasoning'', h) (\<lambda>reasoning h.
                     (case escalate sv h query category confidence reasoning of
                        (result, h) \<Rightarrow> (Inr result, h))))))) (\<lambda>result h.
     io_bind (getitem result ''response'', h) (\<lambda>response h.
       (Inr (override state
               [(''response'', response),
                (''node_executed'', VStr ''escalation''),
                (''requires_escalation'', get result ''requires_escalation'' (VBool True)),
                (''escalation_log'', get result ''escalation_log'' (VDict []))]),
        h))))))"

text \<open>
  The compiled graph of \<^verbatim>\<open>_build_graph\<close>: entry point classifier, one conditional
  edge that maps the router's answer \<^verbatim>\<open>"rag"\<close> to the responder node and
  \<^verbatim>\<open>"escalate"\<close> to the escalation node, and both of these lead to the end. Every
  node returns the whole state, so the state after a node is the dictionary it returned.
\<close>

definition graph_invoke :: "services \<Rightarrow> history \<Rightarrow> dict \<Rightarrow> (exn + dict) \<times> history" where
  "graph_invoke sv h input =
     io_bind (classifier_node sv h input) (\<lambda>state h.
     io_bind (route_query state, h) (\<lambda>route h.
       if route = ''rag'' then rag_responder_node sv h state
       else if route = ''escalate'' then escalation_node sv h state
       else (Inl (KeyError route), h)))"

definition initial_state :: "string \<Rightarrow> dict" where
  "initial_state query =
     [(''query'', VStr query),
      (''category'', VStr ''general''),
      (''confidence'', VFloat 0.0),
      (''reasoning'', VStr []),
      (''retrieved_docs'', VList []),
      (''context'', VStr []),
      (''response'', VStr []),
      (''node_executed'', VStr []),
      (''requires_escalation'', VBool False),
      (''escalation_log'', VDict [])]"

text \<open>\<^verbatim>\<open>CustomerSupportWorkflow.process_query(self, query)\<close>\<close>

definition process_query :: "services \<Rightarrow> history \<Rightarrow> string \<Rightarrow> (exn + dict) \<times> history" where
  "process_query sv h query = graph_invoke sv h (initial_state query)"

section \<open>Chat endpoint (api_server.py)\<close>

text \<open>
  \<^verbatim>\<open>ChatRequest\<close> and \<^verbatim>\<open>ChatResponse\<close> are typed models; their fields are
  prefixed with \<open>req_\<close> and \<open>resp_\<close>. Building a \<^verbatim>\<open>ChatResponse\<close> validates each
  value against the declared type of its field, which is the typed read below; the
  timestamp is filled in from the clock.
\<close>

record ChatRequest =
  req_query :: string
  req_session_id :: "string option"

record ChatResponse =
  resp_response :: string
  resp_category :: string
  resp_confidence :: real
  resp_reasoning :: string
  resp_node_executed :: string
  resp_requires_escalation :: bool
  resp_retrieved_docs :: "string list option"
  resp_timestamp :: string
  resp_session_id :: "string option"

datatype http_exception = HTTPException nat string

definition get_bool :: "dict \<Rightarrow> string \<Rightarrow> exn + bool" where
  "get_bool d k =
     (case map_of d k of
        None \<Rightarrow> Inl (KeyError k)
      | Some (VBool b) \<Rightarrow> Inr b
      | Some _ \<Rightarrow> Inl (TypeError k))"

fun as_str :: "pyval \<Rightarrow> string option" where
  "as_str (VStr s) = Some s"
| "as_str _ = None"

text \<open>\<^verbatim>\<open>d.get(k, None)\<close> read at the type \<^verbatim>\<open>Optional[List[str]]\<close>\<close>

definition get_optional_str_list :: "dict \<Rightarrow> string \<Rightarrow> exn + string list option" where
  "get_optional_str_list d k =
     (case get d k VNone of
        VNone \<Rightarrow> Inr None
      | VList xs \<Rightarrow>
          (case those (map as_str xs) of
             Some ss \<Rightarrow> Inr (Some ss)
           | None \<Rightarrow> Inl (TypeError k))
      | _ \<Rightarrow> Inl (TypeError k))"

text \<open>
  \<^verbatim>\<open>chat(request)\<close>: the workflow receives the query only; the session identifier
  of the request goes straight into the response. Any exception becomes an HTTP error
  500.
\<close>

definition chat ::
  "services \<Rightarrow> history \<Rightarrow> ChatRequest \<Rightarrow> (http_exception + ChatResponse) \<times> history" where
  "chat sv h request =
     (case io_bind (process_query sv h (req_query request)) (\<lambda>result h.
           io_bind (get_str result ''response'', h) (\<lambda>response h.
           io_bind (get_str result ''category'', h) (\<lambda>category h.
           io_bind (get_float result ''confidence'', h) (\<lambda>confidence h.
           io_bind (get_str result ''reasoning'', h) (\<lambda>reasoning h.
           io_bind (get_str result ''node_executed'', h) (\<lambda>node_executed h.
           io_bind (get_bool result ''requires_escalation'', h) (\<lambda>requires_escalation h.
           io_bind (get_optional_str_list result ''retrieved_docs'', h) (\<lambda>retrieved_docs h.
             (Inr \<lparr>resp_response = response,
                   resp_category = category,
                   resp_confidence = confidence,
                   resp_reasoning = reasoning,
                   resp_node_executed = node_executed,
                   resp_requires_escalation = requires_escalation,
                   resp_retrieved_docs = retrieved_docs,
                   resp_timestamp = datetime_now sv h,
                   resp_session_id = req_session_id request\<rparr>,
              h @ [DatetimeNow]))))))))) of
        (Inl e, h') \<Rightarrow> (Inl (HTTPException 500 (''Error processing query: '' @ str_exn e)), h')
      | (Inr response, h') \<Rightarrow> (Inr response, h'))"

section \<open>A concrete set of capabilities\<close>

text \<open>
  A scripted classification backend (the first call on an unknown query fails, a later
  one would succeed), a one-fragment index, a model that fails on the returns prompt
  and a fixed clock. The examples below run the code on it.
\<close>

definition example_services :: services where
  "example_services =
     \<lparr>chain_invoke = (\<lambda>h query.
        if query = ''What is the price of the SmartWatch Pro X?''
        then Inr \<lparr>qc_category = ''products'', qc_confidence = 0.95,
                  qc_reasoning = ''Query is asking about product price''\<rparr>
        else if query = ''What is your return policy?''
        then Inr \<lparr>qc_category = ''returns'', qc_confidence = 0.9,
                  qc_reasoning = ''Query is about returns''\<rparr>
        else if query = ''The thing is broken''
        then Inr \<lparr>qc_category = ''general'', qc_confidence = 0.3,
                  qc_reasoning = ''Too vague to classify accurately''\<rparr>
        else if query = ''Can you help me hack something?''
        then Inr \<lparr>qc_category = ''unhandled'', qc_confidence = 0.95,
                  qc_reasoning = ''Inappropriate request''\<rparr>
        else if h = [] then Inl (Raised ''503 Service Unavailable'')
        else Inr \<lparr>qc_category = ''general'', qc_confidence = 0.9,
                  qc_reasoning = ''General question''\<rparr>),
      similarity_search = (\<lambda>h query k.
        Inr (take k [\<lparr>page_content = ''Product: SmartWatch Pro X''\<rparr>])),
      llm_invoke = (\<lambda>h prompt context query.
        if prompt = returns_prompt then Inl (Raised ''model overloaded'')
        else Inr ''The SmartWatch Pro X is priced at 15,999.''),
      datetime_now = (\<lambda>h. ''2026-01-30T10:30:00'')\<rparr>"

text \<open>
  The state after classification of a vague query (category general, confidence 0.3).
\<close>

definition vague_state :: dict where
  "vague_state =
     [(''query'', VStr ''The thing is broken''),
      (''category'', VStr ''general''),
      (''confidence'', VFloat 0.3),
      (''reasoning'', VStr ''Too vague to classify accurately'')]"

section \<open>Auxiliary lemmas\<close>

lemma io_bind_Inr: "io_bind (Inr x, h) f = f x h"
  by (simp add: io_bind_def)

lemma io_bind_Inl: "io_bind (Inl e, h) f = (Inl e, h)"
  by (simp add: io_bind_def)

lemma override_Nil: "override d [] = d"
  by (simp add: override_def)

lemma override_Cons: "override d ((k, v) # es) = override (AList.update k v d) es"
  by (simp add: override_def)

lemmas node_simps = io_bind_Inr io_bind_Inl override_Nil override_Cons
  getitem_def get_def get_str_def get_float_def

text \<open>The classifier node on the initial state of \<open>process_query\<close>.\<close>

lemma classifier_node_initial:
  "classifier_node sv h (initial_state query) =
    (Inr (override (initial_state query)
            [(''category'', VStr (case chain_invoke sv h query of
                                    Inr c \<Rightarrow> qc_category c | Inl e \<Rightarrow> ''unhandled'')),
             (''confidence'', VFloat (case chain_invoke sv h query of
                                        Inr c \<Rightarrow> qc_confidence c | Inl e \<Rightarrow> 0.0)),
             (''reasoning'', VStr (case chain_invoke sv h query of
                                     Inr c \<Rightarrow> qc_reasoning c
                                   | Inl e \<Rightarrow> ''Classification error: '' @ str_exn e)),
             (''node_executed'', VStr ''classifier'')]),
     h @ [ChainInvoke query])"
  by (simp add: classifier_node_def initial_state_def classify_def node_simps split: sum.split)

lemma respond_response:
  "\<exists>s. map_of (fst (respond sv h query category)) ''response'' = Some (VStr s)"
  by (simp add: respond_def respond_failure_def Let_def split: prod.split sum.split)

text \<open>
  The four runs of \<open>process_query\<close>: the responder, the clarification request, the
  human handoff, and the handoff after a failed classification.
\<close>

lemma process_query_rag:
  assumes "chain_invoke sv h query = Inr c"
    and "qc_category c \<noteq> ''unhandled''" and "\<not> qc_confidence c < 0.7"
  shows "process_query sv h query =
    (Inr [(''query'', VStr query),
          (''category'', VStr (qc_category c)),
          (''confidence'', VFloat (qc_confidence c)),
          (''reasoning'', VStr (qc_reasoning c)),
          (''retrieved_docs'',
             get (fst (respond sv (h @ [ChainInvoke query]) query (qc_category c)))
               ''retrieved_docs'' (VList [])),
          (''context'', VStr []),
          (''response'',
             get (fst (respond sv (h @ [ChainInvoke query]) query (qc_category c)))
               ''response'' VNone),
          (''node_executed'', VStr ''rag_responder''),
          (''requires_escalation'', VBool False),
          (''escalation_log'', VDict [])],
     snd (respond sv (h @ [ChainInvoke query]) query (qc_category c)))"
proof -
  obtain s where s: "map_of (fst (respond sv (h @ [ChainInvoke query]) query (qc_category c)))
      ''response'' = Some (VStr s)"
    using respond_response by blast
  show ?thesis
    unfolding process_query_def graph_invoke_def classifier_node_initial io_bind_Inr
    using assms s
    by (simp add: route_query_def rag_responder_node_def initial_state_def node_simps
        case_prod_beta)
qed

lemma process_query_clarification:
  assumes "chain_invoke sv h query = Inr c"
    and "qc_category c \<noteq> ''unhandled''" and "qc_confidence c < 0.5"
  shows "process_query sv h query =
    (Inr [(''query'', VStr query),
          (''category'', VStr (qc_category c)),
          (''confidence'', VFloat (qc_confidence c)),
          (''reasoning'', VStr (qc_reasoning c)),
          (''retrieved_docs'', VList []),
          (''context'', VStr []),
          (''response'', VStr (clarification_message query)),
          (''node_executed'', VStr ''escalation''),
          (''requires_escalation'', VBool False),
          (''escalation_log'', VDict [])],
     h @ [ChainInvoke query])"
  unfolding process_query_def graph_invoke_def classifier_node_initial io_bind_Inr
  using assms
  by (simp add: route_query_def escalation_node_def generate_clarification_request_def
      initial_state_def node_simps)

lemma process_query_handoff:
  assumes "chain_invoke sv h query = Inr c"
    and "qc_category c = ''unhandled'' \<or> (0.5 \<le> qc_confidence c \<and> qc_confidence c < 0.7)"
  shows "process_query sv h query =
    (Inr [(''query'', VStr query),
          (''category'', VStr (qc_category c)),
          (''confidence'', VFloat (qc_confidence c)),
          (''reasoning'', VStr (qc_reasoning c)),
          (''retrieved_docs'', VList []),
          (''context'', VStr []),
          (''response'', VStr (escalation_message query
               (escalation_reason (qc_category c) (qc_confidence c)))),
          (''node_executed'', VStr ''escalation''),
          (''requires_escalation'', VBool True),
          (''escalation_log'', VDict
            [(''timestamp'', VStr (datetime_now sv (h @ [ChainInvoke query]))),
             (''query'', VStr query),
             (''category'', VStr (qc_category c)),
             (''confidence'', VFloat (qc_confidence c)),
             (''reasoning'', VStr (qc_reasoning c)),
             (''status'', VStr ''escalated'')])],
     h @ [ChainInvoke query, DatetimeNow])"
  unfolding process_query_def graph_invoke_def classifier_node_initial io_bind_Inr
  using assms
  by (auto simp add: route_query_def escalation_node_def escalate_def initial_state_def
      node_simps Let_def)

lemma process_query_backend_error:
  assumes "chain_invoke sv h query = Inl e"
  shows "process_query sv h query =
    (Inr [(''query'', VStr query),
          (''category'', VStr ''unhandled''),
          (''confidence'', VFloat 0.0),
          (''reasoning'', VStr (''Classification error: '' @ str_exn e)),
          (''retrieved_docs'', VList []),
          (''context'', VStr []),
          (''response'',
             VStr (escalation_message query ''This query requires human assistance'')),
          (''node_executed'', VStr ''escalation''),
          (''requires_escalation'', VBool True),
          (''escalation_log'', VDict
            [(''timestamp'', VStr (datetime_now sv (h @ [ChainInvoke query]))),
             (''query'', VStr query),
             (''category'', VStr ''unhandled''),
             (''confidence'', VFloat 0.0),
             (''reasoning'', VStr (''Classification error: '' @ str_exn e)),
             (''status'', VStr ''escalated'')])],
     h @ [ChainInvoke query, DatetimeNow])"
  unfolding process_query_def graph_invoke_def classifier_node_initial io_bind_Inr
  using assms
  by (simp add: route_query_def escalation_node_def escalate_def escalation_reason_def
      initial_state_def node_simps Let_def)

text \<open>The reason is part of the handoff message, and the phrases of the policy are part of the reasons.\<close>

lemma sublist_reason_message: "sublist reason (escalation_message query reason)"
  unfolding escalation_message_def sublist_def
  by (metis append.assoc)

lemma unhandled_phrase:
  "sublist ''requires human assistance'' ''This query requires human assistance''"
  using sublist_appendI [of "''requires human assistance''" "''This query ''" "[]"] by simp

lemma clarification_phrase:
  "sublist ''needs clarification'' ''The query needs clarification''"
  using sublist_appendI [of "''needs clarification''" "''The query ''" "[]"] by simp

lemma specialized_phrase:
  "sublist ''needs specialized support'' ''This request needs specialized support''"
  using sublist_appendI [of "''needs specialized support''" "''This request ''" "[]"] by simp

lemma apology_email: "sublist support_email apology"
  unfolding sublist_def apology_def support_email_def
  by (rule exI [of _ "''I apologize, but I encountered an error processing your request. Please contact ''"],
      rule exI [of _ "[]"]) simp

text \<open>The two sub-behaviors of the escalation node.\<close>

lemma escalation_node_clarification:
  assumes "map_of state ''query'' = Some (VStr query)"
    and "map_of state ''category'' = Some cat"
    and "map_of state ''confidence'' = Some (VFloat conf)"
    and "conf < 0.5" and "cat \<noteq> VStr ''unhandled''"
  shows "escalation_node sv h state =
    (Inr (override state
            [(''response'', VStr (clarification_message query)),
             (''node_executed'', VStr ''escalation''),
             (''requires_escalation'', VBool False),
             (''escalation_log'', VDict [])]),
     h)"
  using assms
  by (simp add: escalation_node_def generate_clarification_request_def io_bind_Inr
      getitem_def get_def get_str_def)

lemma escalation_node_handoff:
  assumes "map_of state ''query'' = Some (VStr query)"
    and "map_of state ''category'' = Some (VStr cat)"
    and "map_of state ''confidence'' = Some (VFloat conf)"
    and "map_of state ''reasoning'' = Some (VStr why)"
    and "\<not> (conf < 0.5 \<and> cat \<noteq> ''unhandled'')"
  shows "escalation_node sv h state =
    (Inr (override state
            [(''response'', VStr (escalation_message query (escalation_reason cat conf))),
             (''node_executed'', VStr ''escalation''),
             (''requires_escalation'', VBool True),
             (''escalation_log'',
                VDict [(''timestamp'', VStr (datetime_now sv h)),
                       (''query'', VStr query),
                       (''category'', VStr cat),
                       (''confidence'', VFloat conf),
                       (''reasoning'', VStr why),
                       (''status'', VStr ''escalated'')])]),
     h @ [DatetimeNow])"
  using assms
  by (auto simp add: escalation_node_def escalate_def io_bind_Inr
      getitem_def get_def get_str_def get_float_def Let_def)

text \<open>The previews that the responder node stores, in terms of the capabilities.\<close>

lemma respond_docs_value:
  "get (fst (respond sv h query category)) ''retrieved_docs'' (VList []) =
     VList (case similarity_search sv h query 4 of
              Inl e \<Rightarrow> []
            | Inr fragments \<Rightarrow>
                (case fst (rag_chain_invoke sv (h @ [SimilaritySearch query 4])
                             (select_prompt category) query) of
                   Inl e \<Rightarrow> []
                 | Inr response \<Rightarrow>
                     map (\<lambda>doc. VStr (take 200 (page_content doc) @ ''...'')) fragments))"
  by (simp add: respond_def respond_failure_def retriever_def get_def Let_def
      split: sum.split prod.split)

text \<open>Every result of \<open>process_query\<close> is well typed and has the ten keys of the initial state.\<close>

lemma those_as_str: "those (map (as_str \<circ> VStr) ds) = Some ds"
  by (induction ds) simp_all

lemma ex_map_VStr: "\<exists>ds. map VStr ds = map (\<lambda>d. VStr (f d)) xs"
  by (rule exI [of _ "map f xs"]) simp

lemma respond_docs_typed:
  "\<exists>ds. map_of (fst (respond sv h query category)) ''retrieved_docs'' = Some (VList (map VStr ds))"
  by (simp add: respond_def respond_failure_def Let_def ex_map_VStr split: prod.split sum.split)

lemma chat_of_result:
  assumes "process_query sv h query = (Inr result, h')"
    and "map_of result ''response'' = Some (VStr response)"
    and "map_of result ''category'' = Some (VStr cat)"
    and "map_of result ''confidence'' = Some (VFloat conf)"
    and "map_of result ''reasoning'' = Some (VStr why)"
    and "map_of result ''node_executed'' = Some (VStr node)"
    and "map_of result ''requires_escalation'' = Some (VBool esc)"
    and "map_of result ''retrieved_docs'' = Some (VList (map VStr ds))"
  shows "chat sv h \<lparr>req_query = query, req_session_id = sid\<rparr> =
           (Inr \<lparr>resp_response = response,
                 resp_category = cat,
                 resp_confidence = conf,
                 resp_reasoning = why,
                 resp_node_executed = node,
                 resp_requires_escalation = esc,
                 resp_retrieved_docs = Some ds,
                 resp_timestamp = datetime_now sv h',
                 resp_session_id = sid\<rparr>,
            h' @ [DatetimeNow])"
  using assms
  by (simp add: chat_def io_bind_Inr get_str_def get_float_def get_bool_def
      get_optional_str_list_def get_def those_as_str)

lemma process_query_typed:
  "\<exists>result h' response cat conf why node esc ds.
     process_query sv h query = (Inr result, h')
     \<and> map_of result ''response'' = Some (VStr response)
     \<and> map_of result ''category'' = Some (VStr cat)
     \<and> map_of result ''confidence'' = Some (VFloat conf)
     \<and> map_of result ''reasoning'' = Some (VStr why)
     \<and> map_of result ''node_executed'' = Some (VStr node)
     \<and> map_of result ''requires_escalation'' = Some (VBool esc)
     \<and> map_of result ''retrieved_docs'' = Some (VList (map VStr ds))
     \<and> keys result =
         [''query'', ''category'', ''confidence'', ''reasoning'', ''retrieved_docs'',
          ''context'', ''response'', ''node_executed'', ''requires_escalation'',
          ''escalation_log'']"
proof (cases "chain_invoke sv h query")
  case (Inl e)
  have "map_of [] ''retrieved_docs'' = None \<and> VList [] = VList (map VStr [])"
    by simp
  then show ?thesis
    using process_query_backend_error [OF Inl] by (simp add: keys_def) (metis list.simps(8))
next
  case (Inr c)
  consider (rag) "qc_category c \<noteq> ''unhandled''" "\<not> qc_confidence c < 0.7"
    | (clarify) "qc_category c \<noteq> ''unhandled''" "qc_confidence c < 0.5"
    | (handoff) "qc_category c = ''unhandled''
                 \<or> (0.5 \<le> qc_confidence c \<and> qc_confidence c < 0.7)"
    by fastforce
  then show ?thesis
  proof cases
    case rag
    obtain s where s: "map_of (fst (respond sv (h @ [ChainInvoke query]) query (qc_category c)))
        ''response'' = Some (VStr s)"
      using respond_response by blast
    obtain ds where ds: "map_of (fst (respond sv (h @ [ChainInvoke query]) query (qc_category c)))
        ''retrieved_docs'' = Some (VList (map VStr ds))"
      using respond_docs_typed by blast
    show ?thesis
      using process_query_rag [OF Inr rag] s ds by (auto simp add: keys_def get_def)
  next
    case clarify
    show ?thesis
      using process_query_clarification [OF Inr clarify]
      by (simp add: keys_def) (metis list.simps(8))
  next
    case handoff
    show ?thesis
      using process_query_handoff [OF Inr handoff]
      by (simp add: keys_def) (metis list.simps(8))
  qed
qed

section \<open>Properties\<close>

text \<open>
  C1. The routing function is total and deterministic over (category, confidence):
  for every state holding a category and a float confidence it returns a route, which
  is escalate when the category is unhandled, and otherwise escalate exactly when the
  confidence is below 0.7 and rag (the respond path) when it is not. The unhandled
  check comes first: it decides the route whatever the confidence.
\<close>

theorem route_query_total:
  assumes "map_of state ''category'' = Some cat"
    and "map_of state ''confidence'' = Some (VFloat conf)"
  shows "route_query state =
           Inr (if cat = VStr ''unhandled'' then ''escalate''
                else if conf < 0.7 then ''escalate'' else ''rag'')"
  using assms by (simp add: route_query_def getitem_def)

theorem route_query_total_witness:
  "map_of [(''category'', VStr ''products''), (''confidence'', VFloat 0.95)] ''category''
     = Some (VStr ''products'')
   \<and> map_of [(''category'', VStr ''products''), (''confidence'', VFloat 0.95)] ''confidence''
     = Some (VFloat 0.95)
   \<and> route_query [(''category'', VStr ''products''), (''confidence'', VFloat 0.95)]
     = Inr ''rag''"
  using route_query_total
    [of "[(''category'', VStr ''products''), (''confidence'', VFloat 0.95)]"
        "VStr ''products''" "0.95"]
  by simp

text \<open>
  C2. When the classification backend raises, classify does not propagate the error:
  it returns category unhandled, confidence 0.0 and the reasoning
  "Classification error: " followed by the text of the error. The backend is called
  exactly once: the history grows by the single call, and what a second attempt would
  have answered plays no part.
\<close>

theorem classify_backend_error:
  assumes "chain_invoke sv h query = Inl e"
  shows "classify sv h query =
           ([(''category'', VStr ''unhandled''),
             (''confidence'', VFloat 0.0),
             (''reasoning'', VStr (''Classification error: '' @ str_exn e))],
            h @ [ChainInvoke query])"
  using assms by (simp add: classify_def)

theorem classify_backend_error_witness:
  "chain_invoke example_services [] ''hello'' = Inl (Raised ''503 Service Unavailable'')
   \<and> classify example_services [] ''hello'' =
       ([(''category'', VStr ''unhandled''),
         (''confidence'', VFloat 0.0),
         (''reasoning'', VStr ''Classification error: 503 Service Unavailable'')],
        [ChainInvoke ''hello''])
   \<and> chain_invoke example_services [ChainInvoke ''hello''] ''hello'' =
       Inr \<lparr>qc_category = ''general'', qc_confidence = 0.9,
            qc_reasoning = ''General question''\<rparr>"
proof -
  have failed: "chain_invoke example_services [] ''hello'' =
      Inl (Raised ''503 Service Unavailable'')"
    by (simp add: example_services_def)
  have again: "chain_invoke example_services [ChainInvoke ''hello''] ''hello'' =
      Inr \<lparr>qc_category = ''general'', qc_confidence = 0.9,
           qc_reasoning = ''General question''\<rparr>"
    by (simp add: example_services_def)
  show ?thesis
    using failed again classify_backend_error [OF failed] by simp
qed

text \<open>
  C3. On the escalate path, a state of the data model (confidence in [0, 1]) with
  confidence in [0, 0.5) and a category other than unhandled gets the clarification
  sub-behavior: the node stores the response of \<open>generate_clarification_request\<close>,
  whose result has needs_clarification = True and requires_escalation = False, and the
  state gets requires_escalation = False; no clock is read. Every other state gets the
  human handoff: the node stores the response and the log of \<open>escalate\<close>, with
  requires_escalation = True.
\<close>

theorem escalation_node_dispatch:
  assumes "map_of state ''query'' = Some (VStr query)"
    and "map_of state ''category'' = Some (VStr cat)"
    and "map_of state ''confidence'' = Some (VFloat conf)"
    and "map_of state ''reasoning'' = Some (VStr why)"
    and "0 \<le> conf" and "conf \<le> 1"
  shows "if 0 \<le> conf \<and> conf < 0.5 \<and> cat \<noteq> ''unhandled''
         then escalation_node sv h state =
                (Inr (override state
                        [(''response'', VStr (clarification_message query)),
                         (''node_executed'', VStr ''escalation''),
                         (''requires_escalation'', VBool False),
                         (''escalation_log'', VDict [])]),
                 h)
              \<and> map_of (generate_clarification_request query) ''response''
                  = Some (VStr (clarification_message query))
              \<and> map_of (generate_clarification_request query) ''needs_clarification''
                  = Some (VBool True)
              \<and> map_of (generate_clarification_request query) ''requires_escalation''
                  = Some (VBool False)
         else escalation_node sv h state =
                (Inr (override state
                        [(''response'',
                            VStr (escalation_message query (escalation_reason cat conf))),
                         (''node_executed'', VStr ''escalation''),
                         (''requires_escalation'', VBool True),
                         (''escalation_log'',
                            VDict [(''timestamp'', VStr (datetime_now sv h)),
                                   (''query'', VStr query),
                                   (''category'', VStr cat),
                                   (''confidence'', VFloat conf),
                                   (''reasoning'', VStr why),
                                   (''status'', VStr ''escalated'')])]),
                 h @ [DatetimeNow])
              \<and> map_of (fst (escalate sv h query cat conf why)) ''response''
                  = Some (VStr (escalation_message query (escalation_reason cat conf)))
              \<and> map_of (fst (escalate sv h query cat conf why)) ''requires_escalation''
                  = Some (VBool True)"
proof (cases "conf < 0.5 \<and> cat \<noteq> ''unhandled''")
  case True
  then show ?thesis
    using assms escalation_node_clarification [of state query "VStr cat" conf sv h]
    by (simp add: generate_clarification_request_def)
next
  case False
  then show ?thesis
    using assms escalation_node_handoff [of state query cat conf why sv h]
    by (auto simp add: escalate_def)
qed

theorem escalation_node_dispatch_witness:
  "map_of vague_state ''query'' = Some (VStr ''The thing is broken'')
   \<and> map_of vague_state ''category'' = Some (VStr ''general'')
   \<and> map_of vague_state ''confidence'' = Some (VFloat 0.3)
   \<and> map_of vague_state ''reasoning'' = Some (VStr ''Too vague to classify accurately'')
   \<and> (0::real) \<le> 0.3 \<and> (0.3::real) \<le> 1
   \<and> escalation_node example_services [] vague_state =
       (Inr (override vague_state
               [(''response'', VStr (clarification_message ''The thing is broken'')),
                (''node_executed'', VStr ''escalation''),
                (''requires_escalation'', VBool False),
                (''escalation_log'', VDict [])]),
        [])
   \<and> map_of (generate_clarification_request ''The thing is broken'') ''needs_clarification''
       = Some (VBool True)"
proof -
  have q: "map_of vague_state ''query'' = Some (VStr ''The thing is broken'')"
    and c: "map_of vague_state ''category'' = Some (VStr ''general'')"
    and x: "map_of vague_state ''confidence'' = Some (VFloat 0.3)"
    and r: "map_of vague_state ''reasoning'' = Some (VStr ''Too vague to classify accurately'')"
    by (simp_all add: vague_state_def)
  have lo: "(0::real) \<le> 0.3" and hi: "(0.3::real) \<le> 1"
    by simp_all
  show ?thesis
    using q c x r escalation_node_dispatch [OF q c x r lo hi, of example_services "[]"]
    by simp
qed

text \<open>
  C4. In the human handoff the reason is chosen by: category unhandled gives
  "requires human assistance"; otherwise a confidence below 0.7 gives
  "needs clarification"; otherwise "needs specialized support". The reason is part of
  the response. Every such result has requires_escalation = True, and its log record
  has exactly the entries timestamp, query, category, confidence, reasoning and
  status = "escalated".
\<close>

theorem escalate_result:
  "map_of (fst (escalate sv h query cat conf why)) ''requires_escalation'' = Some (VBool True)
   \<and> map_of (fst (escalate sv h query cat conf why)) ''escalation_log'' =
       Some (VDict [(''timestamp'', VStr (datetime_now sv h)),
                    (''query'', VStr query),
                    (''category'', VStr cat),
                    (''confidence'', VFloat conf),
                    (''reasoning'', VStr why),
                    (''status'', VStr ''escalated'')])
   \<and> map_of (fst (escalate sv h query cat conf why)) ''response'' =
       Some (VStr (escalation_message query (escalation_reason cat conf)))
   \<and> sublist (escalation_reason cat conf) (escalation_message query (escalation_reason cat conf))
   \<and> (if cat = ''unhandled''
      then escalation_reason cat conf = ''This query requires human assistance''
         \<and> sublist ''requires human assistance'' (escalation_reason cat conf)
      else if conf < 0.7
      then escalation_reason cat conf = ''The query needs clarification''
         \<and> sublist ''needs clarification'' (escalation_reason cat conf)
      else escalation_reason cat conf = ''This request needs specialized support''
         \<and> sublist ''needs specialized support'' (escalation_reason cat conf))"
  using sublist_reason_message [of "escalation_reason cat conf" query]
    unhandled_phrase clarification_phrase specialized_phrase
  by (simp add: escalate_def escalation_reason_def)

text \<open>
  C5. When the retrieval, the retrieval inside the chain or the generation raises,
  respond returns the fixed apology that names the support email, with success = False,
  retrieved_docs = [] and num_docs = 0; the text of the error is kept under the key
  error. The result of respond is always a dictionary: nothing is raised to the caller.
\<close>

theorem respond_failure_semantics:
  assumes "similarity_search sv h query 4 = Inl e
     \<or> (\<exists>docs. similarity_search sv h query 4 = Inr docs
           \<and> similarity_search sv (h @ [SimilaritySearch query 4]) query 4 = Inl e)
     \<or> (\<exists>docs context_docs.
           similarity_search sv h query 4 = Inr docs
           \<and> similarity_search sv (h @ [SimilaritySearch query 4]) query 4 = Inr context_docs
           \<and> llm_invoke sv (h @ [SimilaritySearch query 4, SimilaritySearch query 4])
                (select_prompt category) (format_docs context_docs) query = Inl e)"
  shows "fst (respond sv h query category) =
           [(''response'', VStr apology),
            (''retrieved_docs'', VList []),
            (''num_docs'', VInt 0),
            (''success'', VBool False),
            (''error'', VStr (str_exn e))]
         \<and> sublist support_email apology"
  using assms apology_email
  by (auto simp add: respond_def respond_failure_def retriever_def rag_chain_invoke_def Let_def)

theorem respond_failure_semantics_witness:
  "similarity_search example_services [] ''What is your return policy?'' 4 =
     Inr [\<lparr>page_content = ''Product: SmartWatch Pro X''\<rparr>]
   \<and> llm_invoke example_services
       [SimilaritySearch ''What is your return policy?'' 4,
        SimilaritySearch ''What is your return policy?'' 4]
       (select_prompt ''returns'') (format_docs [\<lparr>page_content = ''Product: SmartWatch Pro X''\<rparr>])
       ''What is your return policy?'' = Inl (Raised ''model overloaded'')
   \<and> fst (respond example_services [] ''What is your return policy?'' ''returns'') =
       [(''response'', VStr apology),
        (''retrieved_docs'', VList []),
        (''num_docs'', VInt 0),
        (''success'', VBool False),
        (''error'', VStr ''model overloaded'')]"
proof -
  have s: "\<And>h. similarity_search example_services h ''What is your return policy?'' 4 =
      Inr [\<lparr>page_content = ''Product: SmartWatch Pro X''\<rparr>]"
    by (simp add: example_services_def)
  have g: "llm_invoke example_services
       ([] @ [SimilaritySearch ''What is your return policy?'' 4,
        SimilaritySearch ''What is your return policy?'' 4])
       (select_prompt ''returns'') (format_docs [\<lparr>page_content = ''Product: SmartWatch Pro X''\<rparr>])
       ''What is your return policy?'' = Inl (Raised ''model overloaded'')"
    by (simp add: example_services_def select_prompt_def prompts_def)
  show ?thesis
    using s g
      respond_failure_semantics [of example_services "[]" "''What is your return policy?''"
        "Raised ''model overloaded''" "''returns''"]
    by simp
qed

text \<open>
  C6, as stated, fails: the previews are not independent of the generation. With one
  fragment retrieved and a failing generation retrieved_docs is empty; and the preview
  of a fragment of 25 characters has 28 characters, not 200.
\<close>

theorem retrieved_docs_counterexample:
  "similarity_search example_services [] ''What is your return policy?'' 4 =
     Inr [\<lparr>page_content = ''Product: SmartWatch Pro X''\<rparr>]
   \<and> map_of (fst (respond example_services [] ''What is your return policy?'' ''returns''))
       ''retrieved_docs'' = Some (VList [])
   \<and> map_of (fst (respond example_services [] ''What is the price of the SmartWatch Pro X?''
                    ''products''))
       ''retrieved_docs'' = Some (VList [VStr ''Product: SmartWatch Pro X...''])
   \<and> length ''Product: SmartWatch Pro X...'' = 28"
  by (simp add: respond_def respond_failure_def retriever_def rag_chain_invoke_def
      example_services_def select_prompt_def prompts_def Let_def)

text \<open>
  C6, amended. The responder asks the semantic search for the top 4 fragments, first
  of all its calls. When the generation succeeds, retrieved_docs holds one preview per
  retrieved fragment: its first 200 characters (the whole fragment when it is shorter)
  followed by "..."; when the generation fails, retrieved_docs is empty.
\<close>

theorem respond_retrieved_docs:
  assumes "similarity_search sv h query 4 = Inr docs"
  shows "map_of (fst (respond sv h query category)) ''retrieved_docs'' =
           Some (VList
             (case fst (rag_chain_invoke sv (h @ [SimilaritySearch query 4])
                          (select_prompt category) query) of
                Inr response \<Rightarrow> map (\<lambda>doc. VStr (take 200 (page_content doc) @ ''...'')) docs
              | Inl e \<Rightarrow> []))
         \<and> prefix (h @ [SimilaritySearch query 4]) (snd (respond sv h query category))
         \<and> (\<forall>doc \<in> set docs.
               length (take 200 (page_content doc) @ ''...'') =
                 min 200 (length (page_content doc)) + 3)"
  using assms
  by (auto simp add: respond_def respond_failure_def retriever_def rag_chain_invoke_def Let_def
      split: sum.split prod.split)

theorem respond_retrieved_docs_witness:
  "similarity_search example_services [] ''What is the price of the SmartWatch Pro X?'' 4 =
     Inr [\<lparr>page_content = ''Product: SmartWatch Pro X''\<rparr>]
   \<and> map_of (fst (respond example_services [] ''What is the price of the SmartWatch Pro X?''
                    ''products''))
       ''retrieved_docs'' = Some (VList [VStr ''Product: SmartWatch Pro X...''])
   \<and> prefix [SimilaritySearch ''What is the price of the SmartWatch Pro X?'' 4]
       (snd (respond example_services [] ''What is the price of the SmartWatch Pro X?''
               ''products''))"
proof -
  have s: "similarity_search example_services []
      ''What is the price of the SmartWatch Pro X?'' 4 =
      Inr [\<lparr>page_content = ''Product: SmartWatch Pro X''\<rparr>]"
    by (simp add: example_services_def)
  have g: "fst (rag_chain_invoke example_services
      ([] @ [SimilaritySearch ''What is the price of the SmartWatch Pro X?'' 4])
      (select_prompt ''products'') ''What is the price of the SmartWatch Pro X?'') =
      Inr ''The SmartWatch Pro X is priced at 15,999.''"
    by (simp add: rag_chain_invoke_def retriever_def example_services_def select_prompt_def
        prompts_def)
  show ?thesis
    using s g respond_retrieved_docs [OF s, of "''products''"]
    by simp
qed

text \<open>
  C7, as stated, fails: on the clarification sub-path the completed result has neither
  retrieved_docs nor escalation_log populated.
\<close>

theorem exclusivity_counterexample:
  "process_query example_services [] ''The thing is broken'' =
     (Inr [(''query'', VStr ''The thing is broken''),
           (''category'', VStr ''general''),
           (''confidence'', VFloat 0.3),
           (''reasoning'', VStr ''Too vague to classify accurately''),
           (''retrieved_docs'', VList []),
           (''context'', VStr []),
           (''response'', VStr (clarification_message ''The thing is broken'')),
           (''node_executed'', VStr ''escalation''),
           (''requires_escalation'', VBool False),
           (''escalation_log'', VDict [])],
      [ChainInvoke ''The thing is broken''])"
proof -
  have c: "chain_invoke example_services [] ''The thing is broken'' =
      Inr \<lparr>qc_category = ''general'', qc_confidence = 0.3,
           qc_reasoning = ''Too vague to classify accurately''\<rparr>"
    by (simp add: example_services_def)
  show ?thesis
    using process_query_clarification [OF c] by simp
qed

text \<open>
  C7, amended. Every query completes, and in the completed result at most one of
  retrieved_docs and escalation_log is populated, consistent with node_executed.
  Exactly one is populated except where both are empty: on the clarification sub-path
  (category other than unhandled, confidence below 0.5), and on the respond path when
  the retrieval or the generation fails or the search returns no fragment. On the
  human handoff (a failed classification, category unhandled, or confidence in
  [0.5, 0.7)) node_executed is escalation, escalation_log is populated and
  retrieved_docs is empty. On the respond path node_executed is rag_responder,
  escalation_log is empty and retrieved_docs holds the previews of the retrieved
  fragments when retrieval and generation succeed.
\<close>

theorem exclusivity:
  "\<exists>result h' node docs log.
     process_query sv h query = (Inr result, h')
     \<and> map_of result ''node_executed'' = Some (VStr node)
     \<and> map_of result ''retrieved_docs'' = Some (VList docs)
     \<and> map_of result ''escalation_log'' = Some (VDict log)
     \<and> (docs = [] \<or> log = [])
     \<and> (case chain_invoke sv h query of
          Inl e \<Rightarrow> node = ''escalation'' \<and> docs = [] \<and> log \<noteq> []
        | Inr c \<Rightarrow>
            if qc_category c \<noteq> ''unhandled'' \<and> \<not> qc_confidence c < 0.7
            then node = ''rag_responder'' \<and> log = []
               \<and> docs =
                   (case similarity_search sv (h @ [ChainInvoke query]) query 4 of
                      Inl e \<Rightarrow> []
                    | Inr fragments \<Rightarrow>
                        (case fst (rag_chain_invoke sv
                                     (h @ [ChainInvoke query, SimilaritySearch query 4])
                                     (select_prompt (qc_category c)) query) of
                           Inl e \<Rightarrow> []
                         | Inr response \<Rightarrow>
                             map (\<lambda>doc. VStr (take 200 (page_content doc) @ ''...''))
                               fragments))
            else if qc_category c \<noteq> ''unhandled'' \<and> qc_confidence c < 0.5
            then node = ''escalation'' \<and> docs = [] \<and> log = []
            else node = ''escalation'' \<and> docs = [] \<and> log \<noteq> [])"
proof (cases "chain_invoke sv h query")
  case (Inl e)
  show ?thesis
    using Inl process_query_backend_error [OF Inl] by simp
next
  case (Inr c)
  consider (rag) "qc_category c \<noteq> ''unhandled''" "\<not> qc_confidence c < 0.7"
    | (clarify) "qc_category c \<noteq> ''unhandled''" "qc_confidence c < 0.5"
    | (handoff) "qc_category c = ''unhandled''
                 \<or> (0.5 \<le> qc_confidence c \<and> qc_confidence c < 0.7)"
    by fastforce
  then show ?thesis
  proof cases
    case rag
    show ?thesis
      using Inr rag process_query_rag [OF Inr rag]
        respond_docs_value [of sv "h @ [ChainInvoke query]" query "qc_category c",
          unfolded append_assoc append_Cons append_Nil]
      by simp
  next
    case clarify
    show ?thesis
      using Inr clarify process_query_clarification [OF Inr clarify] by simp
  next
    case handoff
    show ?thesis
      using Inr handoff process_query_handoff [OF Inr handoff] by auto
  qed
qed

theorem exclusivity_witness:
  "\<exists>result h'.
     process_query example_services [] ''What is the price of the SmartWatch Pro X?'' =
       (Inr result, h')
     \<and> map_of result ''node_executed'' = Some (VStr ''rag_responder'')
     \<and> map_of result ''retrieved_docs'' = Some (VList [VStr ''Product: SmartWatch Pro X...''])
     \<and> map_of result ''escalation_log'' = Some (VDict [])"
proof -
  have c: "chain_invoke example_services [] ''What is the price of the SmartWatch Pro X?'' =
      Inr \<lparr>qc_category = ''products'', qc_confidence = 0.95,
           qc_reasoning = ''Query is asking about product price''\<rparr>"
    by (simp add: example_services_def)
  have s: "\<And>h. similarity_search example_services h
      ''What is the price of the SmartWatch Pro X?'' 4 =
      Inr [\<lparr>page_content = ''Product: SmartWatch Pro X''\<rparr>]"
    by (simp add: example_services_def)
  have g: "\<And>h. fst (rag_chain_invoke example_services h
      (select_prompt ''products'') ''What is the price of the SmartWatch Pro X?'') =
      Inr ''The SmartWatch Pro X is priced at 15,999.''"
    by (simp add: rag_chain_invoke_def retriever_def example_services_def select_prompt_def
        prompts_def)
  show ?thesis
    using exclusivity
      [of example_services "[]" "''What is the price of the SmartWatch Pro X?''"]
    by (simp add: c s g)
qed

text \<open>
  C8. When the classification backend raises, classify returns category unhandled and
  confidence 0.0 with a reasoning that contains "Classification error"; the router
  sends the classified state to the escalate path; and the completed result was
  produced by the escalation node, with requires_escalation = True and a response whose
  reason is "requires human assistance".
\<close>

theorem backend_failure_end_to_end:
  assumes "chain_invoke sv h query = Inl e"
  shows "fst (classify sv h query) =
           [(''category'', VStr ''unhandled''),
            (''confidence'', VFloat 0.0),
            (''reasoning'', VStr (''Classification error: '' @ str_exn e))]
         \<and> sublist ''Classification error'' (''Classification error: '' @ str_exn e)
         \<and> (\<exists>state h1. classifier_node sv h (initial_state query) = (Inr state, h1)
               \<and> route_query state = Inr ''escalate'')
         \<and> (\<exists>result.
               process_query sv h query = (Inr result, h @ [ChainInvoke query, DatetimeNow])
               \<and> map_of result ''category'' = Some (VStr ''unhandled'')
               \<and> map_of result ''confidence'' = Some (VFloat 0.0)
               \<and> map_of result ''reasoning'' =
                   Some (VStr (''Classification error: '' @ str_exn e))
               \<and> map_of result ''node_executed'' = Some (VStr ''escalation'')
               \<and> map_of result ''requires_escalation'' = Some (VBool True)
               \<and> map_of result ''response'' =
                   Some (VStr (escalation_message query ''This query requires human assistance'')))
         \<and> sublist ''requires human assistance''
             (escalation_message query ''This query requires human assistance'')"
proof -
  have "sublist ''Classification error'' (''Classification error'' @ '': '' @ str_exn e)"
    by (rule sublist_append_rightI)
  then have phrase: "sublist ''Classification error'' (''Classification error: '' @ str_exn e)"
    by simp
  have route: "\<exists>state h1. classifier_node sv h (initial_state query) = (Inr state, h1)
      \<and> route_query state = Inr ''escalate''"
    unfolding classifier_node_initial
    using assms
    by (simp add: route_query_def initial_state_def node_simps)
  have reason: "sublist ''requires human assistance''
      (escalation_message query ''This query requires human assistance'')"
    using unhandled_phrase sublist_reason_message sublist_order.order_trans by blast
  show ?thesis
    using assms phrase route reason process_query_backend_error [OF assms]
    by (simp add: classify_def)
qed

theorem backend_failure_end_to_end_witness:
  "chain_invoke example_services [] ''hello'' = Inl (Raised ''503 Service Unavailable'')
   \<and> (\<exists>result.
        process_query example_services [] ''hello'' =
          (Inr result, [ChainInvoke ''hello'', DatetimeNow])
        \<and> map_of result ''category'' = Some (VStr ''unhandled'')
        \<and> map_of result ''confidence'' = Some (VFloat 0.0)
        \<and> map_of result ''reasoning'' =
            Some (VStr ''Classification error: 503 Service Unavailable'')
        \<and> map_of result ''node_executed'' = Some (VStr ''escalation'')
        \<and> map_of result ''requires_escalation'' = Some (VBool True)
        \<and> map_of result ''response'' =
            Some (VStr (escalation_message ''hello'' ''This query requires human assistance'')))"
proof -
  have failed: "chain_invoke example_services [] ''hello'' =
      Inl (Raised ''503 Service Unavailable'')"
    by (simp add: example_services_def)
  show ?thesis
    using failed backend_failure_end_to_end [OF failed] by simp
qed

text \<open>
  C9, as stated, fails: \<open>process_query\<close> takes the query only, and its result has the
  ten keys of the workflow state, none of which is a session identifier.
\<close>

theorem session_id_counterexample:
  "\<exists>result h'.
     process_query example_services [] ''What is the price of the SmartWatch Pro X?'' =
       (Inr result, h')
     \<and> keys result =
         [''query'', ''category'', ''confidence'', ''reasoning'', ''retrieved_docs'',
          ''context'', ''response'', ''node_executed'', ''requires_escalation'',
          ''escalation_log'']
     \<and> map_of result ''session_id'' = None"
proof -
  have c: "chain_invoke example_services [] ''What is the price of the SmartWatch Pro X?'' =
      Inr \<lparr>qc_category = ''products'', qc_confidence = 0.95,
           qc_reasoning = ''Query is asking about product price''\<rparr>"
    by (simp add: example_services_def)
  show ?thesis
    using process_query_rag [OF c] by (simp add: keys_def)
qed

text \<open>
  C9, amended. The chat endpoint, which wraps \<open>process_query\<close>, accepts an optional
  session identifier. Every request is answered; the identifier is echoed back
  unchanged; and two requests that differ only in the identifier get responses that are
  equal in every other field.
\<close>

theorem chat_session_id:
  "\<exists>r h'. chat sv h \<lparr>req_query = query, req_session_id = sid\<rparr> = (Inr r, h')
     \<and> resp_session_id r = sid
     \<and> chat sv h \<lparr>req_query = query, req_session_id = sid'\<rparr> =
         (Inr (r\<lparr>resp_session_id := sid'\<rparr>), h')"
proof -
  obtain result h' response cat conf why node esc ds where
    "process_query sv h query = (Inr result, h')"
    "map_of result ''response'' = Some (VStr response)"
    "map_of result ''category'' = Some (VStr cat)"
    "map_of result ''confidence'' = Some (VFloat conf)"
    "map_of result ''reasoning'' = Some (VStr why)"
    "map_of result ''node_executed'' = Some (VStr node)"
    "map_of result ''requires_escalation'' = Some (VBool esc)"
    "map_of result ''retrieved_docs'' = Some (VList (map VStr ds))"
    using process_query_typed [of sv h query] by blast
  then have "\<And>s. chat sv h \<lparr>req_query = query, req_session_id = s\<rparr> =
           (Inr \<lparr>resp_response = response,
                 resp_category = cat,
                 resp_confidence = conf,
                 resp_reasoning = why,
                 resp_node_executed = node,
                 resp_requires_escalation = esc,
                 resp_retrieved_docs = Some ds,
                 resp_timestamp = datetime_now sv h',
                 resp_session_id = s\<rparr>,
            h' @ [DatetimeNow])"
    by (rule chat_of_result)
  then show ?thesis
    by simp
qed

text \<open>
  C10. On the clarification sub-path the escalation node changes only the entries
  response, node_executed, requires_escalation and escalation_log of the state. The
  result of \<open>generate_clarification_request\<close> has needs_clarification = True and no
  escalation_log; the completed result of \<open>process_query\<close> has no needs_clarification
  entry, and its escalation_log is the empty record.
\<close>

theorem clarification_flag_dropped:
  assumes "chain_invoke sv h query = Inr c"
    and "qc_category c \<noteq> ''unhandled''" and "qc_confidence c < 0.5"
  shows "\<exists>state result h1.
      classifier_node sv h (initial_state query) = (Inr state, h1)
      \<and> escalation_node sv h1 state = (Inr result, h1)
      \<and> process_query sv h query = (Inr result, h1)
      \<and> map_of (generate_clarification_request query) ''needs_clarification''
          = Some (VBool True)
      \<and> map_of (generate_clarification_request query) ''escalation_log'' = None
      \<and> map_of result =
          (map_of state)
            (''response'' \<mapsto> VStr (clarification_message query),
             ''node_executed'' \<mapsto> VStr ''escalation'',
             ''requires_escalation'' \<mapsto> VBool False,
             ''escalation_log'' \<mapsto> VDict [])
      \<and> keys result = keys state
      \<and> map_of result ''needs_clarification'' = None
      \<and> map_of result ''escalation_log'' = Some (VDict [])"
proof -
  let ?state = "override (initial_state query)
            [(''category'', VStr (qc_category c)),
             (''confidence'', VFloat (qc_confidence c)),
             (''reasoning'', VStr (qc_reasoning c)),
             (''node_executed'', VStr ''classifier'')]"
  let ?result = "override ?state
            [(''response'', VStr (clarification_message query)),
             (''node_executed'', VStr ''escalation''),
             (''requires_escalation'', VBool False),
             (''escalation_log'', VDict [])]"
  have node1: "classifier_node sv h (initial_state query) = (Inr ?state, h @ [ChainInvoke query])"
    using assms(1) by (simp add: classifier_node_initial)
  have node3: "escalation_node sv (h @ [ChainInvoke query]) ?state =
      (Inr ?result, h @ [ChainInvoke query])"
    using assms(2,3)
    by (intro escalation_node_clarification [where cat = "VStr (qc_category c)"])
       (simp_all add: initial_state_def override_Cons override_Nil)
  have whole: "process_query sv h query = (Inr ?result, h @ [ChainInvoke query])"
    using process_query_clarification [OF assms]
    by (simp add: initial_state_def override_Cons override_Nil)
  have frame: "map_of ?result =
          (map_of ?state)
            (''response'' \<mapsto> VStr (clarification_message query),
             ''node_executed'' \<mapsto> VStr ''escalation'',
             ''requires_escalation'' \<mapsto> VBool False,
             ''escalation_log'' \<mapsto> VDict [])"
    by (simp only: override_Cons override_Nil update_conv')
  have rest: "keys ?result = keys ?state \<and> map_of ?result ''needs_clarification'' = None
      \<and> map_of ?result ''escalation_log'' = Some (VDict [])"
    by (simp add: initial_state_def override_Cons override_Nil keys_def)
  show ?thesis
    using node1 node3 whole frame rest
    by (simp add: generate_clarification_request_def)
qed

theorem clarification_flag_dropped_witness:
  "chain_invoke example_services [] ''The thing is broken'' =
     Inr \<lparr>qc_category = ''general'', qc_confidence = 0.3,
          qc_reasoning = ''Too vague to classify accurately''\<rparr>
   \<and> (\<exists>result h1.
        process_query example_services [] ''The thing is broken'' = (Inr result, h1)
        \<and> map_of (generate_clarification_request ''The thing is broken'')
            ''needs_clarification'' = Some (VBool True)
        \<and> map_of result ''needs_clarification'' = None
        \<and> map_of result ''escalation_log'' = Some (VDict []))"
proof -
  have c: "chain_invoke example_services [] ''The thing is broken'' =
      Inr \<lparr>qc_category = ''general'', qc_confidence = 0.3,
           qc_reasoning = ''Too vague to classify accurately''\<rparr>"
    by (simp add: example_services_def)
  show ?thesis
    using c clarification_flag_dropped [OF c] by auto
qed

end
